theory Spec2Isabelle
  imports Complex_Main "HOL-Library.Sublist" "HOL-Library.Option_ord" "HOL-Library.Multiset"
begin

section \<open>Grade calculation: an embedding of \<open>calculate_grades.py\<close>\<close>

text \<open>
  Conventions of the embedding.
  \<^item> Python floats are the reals: rounding is not modelled.
  \<^item> A timestamp value is a \<open>string option\<close>: \<open>None\<close> is Python's \<open>None\<close> (a YAML null),
    \<open>Some s\<close> the string \<open>s\<close>. Both \<open>None\<close> and the empty string are falsy.
  \<^item> A dict read with \<open>items()\<close> is an association list in insertion order; a dict read
    by a fixed key is a record. A field is optional (\<open>None\<close>: the key is missing) where
    the code reads the key with \<open>get\<close> or tests for it, and for the due dates of a
    category, which the code reads with \<open>[...]\<close> right beside a \<open>get\<close> for the
    project. The other keys (\<open>score\<close> and \<open>submitted_at\<close> of a submission,
    \<open>weights\<close>, \<open>due_dates\<close> and \<open>late_penalty\<close> with its \<open>rate\<close> and
    \<open>max_penalty\<close>) are taken to be present, and every value to have its declared type.
  \<^item> A raised exception is a value of type \<open>error\<close>.
  \<^item> \<open>datetime.fromisoformat\<close> belongs to the standard library and is a parameter
    \<open>P\<close> of the functions below: \<open>P s = None\<close> when the library raises \<open>ValueError\<close>.
\<close>

subsection \<open>Exceptions\<close>

datatype error =
    ValueError string
  | TypeError
  | KeyError string
  | ZeroDivisionError

subsection \<open>The standard library's datetime\<close>

text \<open>
  A \<open>datetime\<close> holds the civil fields and \<open>tzinfo\<close>, the UTC offset in microseconds
  (\<open>None\<close> for a naive value). A \<open>timedelta\<close> is a number of microseconds; its attribute
  \<open>days\<close> is the floor of the whole days in it, since the library normalises the
  seconds and microseconds of a timedelta to be non-negative.
\<close>

record datetime =
  year :: int
  month :: int
  day :: int
  hour :: int
  minute :: int
  second :: int
  microsecond :: int
  tzinfo :: "int option"

type_synonym timedelta = int

definition is_leap :: "int \<Rightarrow> bool" where
  "is_leap y = (y mod 4 = 0 \<and> (y mod 100 \<noteq> 0 \<or> y mod 400 = 0))"

definition days_before_year :: "int \<Rightarrow> int" where
  "days_before_year y = (y - 1) * 365 + (y - 1) div 4 - (y - 1) div 100 + (y - 1) div 400"

definition days_before_month :: "int \<Rightarrow> int \<Rightarrow> int" where
  "days_before_month y m =
     (if m = 1 then 0 else if m = 2 then 31 else
      (if m = 3 then 59 else if m = 4 then 90 else if m = 5 then 120
       else if m = 6 then 151 else if m = 7 then 181 else if m = 8 then 212
       else if m = 9 then 243 else if m = 10 then 273 else if m = 11 then 304
       else 334) + (if is_leap y then 1 else 0))"

definition ymd2ord :: "int \<Rightarrow> int \<Rightarrow> int \<Rightarrow> int" where
  "ymd2ord y m d = days_before_year y + days_before_month y m + d"

definition wall_clock :: "datetime \<Rightarrow> int" where
  \<comment> \<open>microseconds from the start of day 0 of the proleptic calendar, on the value's own clock\<close>
  "wall_clock t =
     (((ymd2ord (year t) (month t) (day t) * 24 + hour t) * 60 + minute t) * 60 + second t)
       * 1000000 + microsecond t"

definition datetime_sub :: "datetime \<Rightarrow> datetime \<Rightarrow> error + timedelta" where
  \<comment> \<open>\<open>a - b\<close>: a naive and an aware value cannot be subtracted\<close>
  "datetime_sub a b =
     (case (tzinfo a, tzinfo b) of
        (None, None) \<Rightarrow> Inr (wall_clock a - wall_clock b)
      | (Some oa, Some ob) \<Rightarrow> Inr (wall_clock a - wall_clock b + ob - oa)
      | _ \<Rightarrow> Inl TypeError)"

definition days :: "timedelta \<Rightarrow> int" where
  "days td = td div 86400000000"

subsection \<open>Strings\<close>

definition replace_Z :: "string \<Rightarrow> string" where
  \<comment> \<open>\<open>s.replace("Z", "+00:00")\<close>: every occurrence is replaced\<close>
  "replace_Z s = concat (map (\<lambda>c. if c = CHR ''Z'' then ''+00:00'' else [c]) s)"

type_synonym timestamp = "string option"

definition falsy :: "timestamp \<Rightarrow> bool" where
  \<comment> \<open>\<open>not x\<close> for a value that is \<open>None\<close> or a string\<close>
  "falsy t = (case t of None \<Rightarrow> True | Some s \<Rightarrow> s = [])"

definition str_of :: "timestamp \<Rightarrow> string" where
  \<comment> \<open>how an f-string prints the value\<close>
  "str_of t = (case t of None \<Rightarrow> ''None'' | Some s \<Rightarrow> s)"

subsection \<open>\<open>calculate_late_penalty\<close>\<close>

record PenaltyResult =
  days_late :: int
  penalty :: real

definition missing_date_warning :: "timestamp \<Rightarrow> timestamp \<Rightarrow> string" where
  "missing_date_warning submitted_at due_date =
     ''Warning: Missing date - submitted: '' @ str_of submitted_at @ '', due: '' @ str_of due_date"

definition fromisoformat :: "(string \<Rightarrow> datetime option) \<Rightarrow> string \<Rightarrow> error + datetime" where
  "fromisoformat P s =
     (case P s of None \<Rightarrow> Inl (ValueError ''Invalid isoformat string'') | Some t \<Rightarrow> Inr t)"

text \<open>
  The result pairs the lines written to \<open>stderr\<close> with the value returned or the
  exception raised.
\<close>

definition calculate_late_penalty ::
  "(string \<Rightarrow> datetime option) \<Rightarrow> timestamp \<Rightarrow> timestamp \<Rightarrow> real \<Rightarrow> real
     \<Rightarrow> string list \<times> (error + PenaltyResult)" where
  "calculate_late_penalty P submitted_at due_date rate max_penalty =
     (if falsy submitted_at \<or> falsy due_date
      then ([missing_date_warning submitted_at due_date],
            Inr \<lparr>days_late = 0, penalty = 0\<rparr>)
      else
        (case fromisoformat P (replace_Z (the submitted_at)) of
           Inl e \<Rightarrow> ([], Inl e)
         | Inr submitted \<Rightarrow>
            (case fromisoformat P (replace_Z (the due_date)) of
               Inl e \<Rightarrow> ([], Inl e)
             | Inr due \<Rightarrow>
                (case datetime_sub submitted due of
                   Inl e \<Rightarrow> ([], Inl e)
                 | Inr td \<Rightarrow>
                    (let dl = max 0 (days td);
                         pen = min max_penalty (rate * real_of_int dl)
                     in ([], Inr \<lparr>days_late = dl, penalty = pen\<rparr>))))))"

subsection \<open>\<open>process_assignment_category\<close>\<close>

record Submission =
  score :: real
  submitted_at :: timestamp

record AssignmentScore =
  name :: string
  original_score :: real
  adjusted_score :: real
  days_late :: int

text \<open>
  The table handed to the renderer: its heading and one row per assignment counted.
  The layout of the cells (two decimals, title case) is rendering and is not modelled.
\<close>

record Table =
  heading :: string
  rows :: "AssignmentScore list"

definition get_or_empty :: "(string \<times> timestamp) list \<Rightarrow> string \<Rightarrow> timestamp" where
  \<comment> \<open>\<open>due_dates.get(name, "")\<close>\<close>
  "get_or_empty due_dates n = (case map_of due_dates n of None \<Rightarrow> Some [] | Some t \<Rightarrow> t)"

text \<open>The \<open>for\<close> loop over \<open>scores.items()\<close>: it stops at the first exception.\<close>

fun score_assignments ::
  "(string \<Rightarrow> datetime option) \<Rightarrow> (string \<times> Submission) list \<Rightarrow> (string \<times> timestamp) list
     \<Rightarrow> real \<Rightarrow> real \<Rightarrow> string list \<times> (error + AssignmentScore list)" where
  "score_assignments P [] due_dates late_penalty_rate late_penalty_max = ([], Inr [])"
| "score_assignments P ((n, assignment) # rest) due_dates late_penalty_rate late_penalty_max =
     (case calculate_late_penalty P (submitted_at assignment) (get_or_empty due_dates n)
             late_penalty_rate late_penalty_max of
        (out, Inl e) \<Rightarrow> (out, Inl e)
      | (out, Inr pen) \<Rightarrow>
         (case score_assignments P rest due_dates late_penalty_rate late_penalty_max of
            (out', Inl e) \<Rightarrow> (out @ out', Inl e)
          | (out', Inr assignments) \<Rightarrow>
             (out @ out',
              Inr (\<lparr>name = n, original_score = score assignment,
                      adjusted_score = score assignment * (1 - penalty pen),
                      days_late = PenaltyResult.days_late pen\<rparr> # assignments))))"

definition sort_desc :: "('a \<Rightarrow> real) \<Rightarrow> 'a list \<Rightarrow> 'a list" where
  \<comment> \<open>\<open>sort(key=f, reverse=True)\<close>: stable, greatest key first\<close>
  "sort_desc f xs = sort_key (\<lambda>x. - f x) xs"

definition drop_last :: "int \<Rightarrow> 'a list \<Rightarrow> 'a list" where
  \<comment> \<open>the slice \<open>xs[:-drops]\<close> for \<open>drops > 0\<close>\<close>
  "drop_last drops xs = take (length xs - nat drops) xs"

definition aggregate :: "string \<Rightarrow> real \<Rightarrow> int \<Rightarrow> AssignmentScore list \<Rightarrow> error + real \<times> Table" where
  \<comment> \<open>lines 69 to 91: the drop, the average, the weighting and the table\<close>
  "aggregate category_name weight drops assignments =
     (let kept = (if drops > 0 then drop_last drops (sort_desc adjusted_score assignments)
                  else assignments)
      in if length kept = 0 then Inl ZeroDivisionError
         else
           (let avg_score = sum_list (map adjusted_score kept) / real (length kept);
                weighted_score = avg_score * weight
            in Inr (weighted_score, \<lparr>heading = category_name, rows = kept\<rparr>)))"

definition process_assignment_category ::
  "(string \<Rightarrow> datetime option) \<Rightarrow> string \<Rightarrow> (string \<times> Submission) list
     \<Rightarrow> (string \<times> timestamp) list \<Rightarrow> real \<Rightarrow> real \<Rightarrow> real \<Rightarrow> int
     \<Rightarrow> string list \<times> (error + real \<times> Table)" where
  "process_assignment_category P category_name scores due_dates weight
       late_penalty_rate late_penalty_max drops =
     (case score_assignments P scores due_dates late_penalty_rate late_penalty_max of
        (out, Inl e) \<Rightarrow> (out, Inl e)
      | (out, Inr assignments) \<Rightarrow> (out, aggregate category_name weight drops assignments))"

subsection \<open>\<open>calculate_grade\<close>\<close>

record Scores =
  project :: "Submission option"
  quizzes :: "(string \<times> Submission) list option"
  homework :: "(string \<times> Submission) list option"
  reflections :: "(string \<times> Submission) list option"

record Grades =
  name :: "string option"
  ident :: "string option"
  scores :: "Scores option"

record Weights =
  project :: "real option"
  quizzes :: "real option"
  homework :: "real option"
  reflections :: "real option"

record DueDates =
  project :: "timestamp option"
  quizzes :: "(string \<times> timestamp) list option"
  homework :: "(string \<times> timestamp) list option"
  reflections :: "(string \<times> timestamp) list option"

record LatePenalty =
  rate :: real
  max_penalty :: real

record Policy =
  weights :: Weights
  due_dates :: DueDates
  late_penalty :: LatePenalty
  quiz_drops :: "int option"
  grade_scale :: "(string \<times> real) list option"

text \<open>
  What the function writes to the console, one event for each block of prints; the
  numbers are kept as they are, not as the text the renderer makes of them.
\<close>

datatype event =
    Header string string
  | ProjectScore real int real real
  | CategoryScores string Table real real
  | FinalSummary real string
  | PolicyDetails real real "int option"
  | Warnings "string list"

text \<open>The locals \<open>total_score\<close> and \<open>warning_messages\<close>, and the two output streams.\<close>

record state =
  total_score :: real
  warning_messages :: "string list"
  console :: "event list"
  stderr :: "string list"

definition init_state :: state where
  "init_state = \<lparr>total_score = 0, warning_messages = [], console = [], stderr = []\<rparr>"

definition truthy_weight :: "real option \<Rightarrow> bool" where
  \<comment> \<open>the truth value of \<open>policy["weights"].get(k)\<close>: a missing key and a zero are falsy\<close>
  "truthy_weight w = (case w of None \<Rightarrow> False | Some x \<Rightarrow> x \<noteq> 0)"

definition truthy_dict :: "'a list option \<Rightarrow> bool" where
  \<comment> \<open>the truth value of \<open>grades["scores"].get(k)\<close>: a missing key and an empty dict are falsy\<close>
  "truthy_dict d = (case d of None \<Rightarrow> False | Some xs \<Rightarrow> xs \<noteq> [])"

definition skip_stage :: "string \<Rightarrow> state \<Rightarrow> state \<times> error option" where
  "skip_stage msg st = (st\<lparr>warning_messages := warning_messages st @ [msg]\<rparr>, None)"

definition project_stage ::
  "(string \<Rightarrow> datetime option) \<Rightarrow> Scores \<Rightarrow> Policy \<Rightarrow> state \<Rightarrow> state \<times> error option" where
  \<comment> \<open>lines 109 to 130\<close>
  "project_stage P sc pol st =
     (if Scores.project sc \<noteq> None \<and> truthy_weight (Weights.project (weights pol))
      then
        (case calculate_late_penalty P (submitted_at (the (Scores.project sc)))
                (case DueDates.project (due_dates pol) of None \<Rightarrow> Some [] | Some t \<Rightarrow> t)
                (rate (late_penalty pol)) (max_penalty (late_penalty pol)) of
           (out, Inl e) \<Rightarrow> (st\<lparr>stderr := stderr st @ out\<rparr>, Some e)
         | (out, Inr project_penalty) \<Rightarrow>
            (let project_score =
                   score (the (Scores.project sc)) * (1 - penalty project_penalty)
                     * the (Weights.project (weights pol))
             in (st\<lparr>total_score := total_score st + project_score,
                    console := console st @
                      [ProjectScore (score (the (Scores.project sc)))
                         (PenaltyResult.days_late project_penalty)
                         (the (Weights.project (weights pol))) project_score],
                    stderr := stderr st @ out\<rparr>, None)))
      else skip_stage ''Missing project data'' st)"

definition category_stage ::
  "(string \<Rightarrow> datetime option) \<Rightarrow> string \<Rightarrow> string \<Rightarrow> string
     \<Rightarrow> (string \<times> Submission) list option
     \<Rightarrow> (string \<times> timestamp) list option \<Rightarrow> real option \<Rightarrow> Policy \<Rightarrow> int
     \<Rightarrow> state \<Rightarrow> state \<times> error option" where
  \<comment> \<open>the shape shared by lines 133 to 149, 152 to 167 and 170 to 185\<close>
  "category_stage P label category msg sc_opt due_opt w_opt pol drops st =
     (if truthy_dict sc_opt \<and> truthy_weight w_opt
      then
        (case due_opt of
           None \<Rightarrow> (st, Some (KeyError category))
         | Some due \<Rightarrow>
            (case process_assignment_category P category (the sc_opt) due (the w_opt)
                    (rate (late_penalty pol)) (max_penalty (late_penalty pol)) drops of
               (out, Inl e) \<Rightarrow> (st\<lparr>stderr := stderr st @ out\<rparr>, Some e)
             | (out, Inr (cat_score, cat_table)) \<Rightarrow>
                (st\<lparr>total_score := total_score st + cat_score,
                    console := console st @ [CategoryScores label cat_table (the w_opt) cat_score],
                    stderr := stderr st @ out\<rparr>, None)))
      else skip_stage msg st)"

definition quiz_stage ::
  "(string \<Rightarrow> datetime option) \<Rightarrow> Scores \<Rightarrow> Policy \<Rightarrow> state \<Rightarrow> state \<times> error option" where
  "quiz_stage P sc pol =
     category_stage P ''Quiz Scores:'' ''quizzes'' ''Missing quizzes data'' (Scores.quizzes sc)
       (DueDates.quizzes (due_dates pol)) (Weights.quizzes (weights pol)) pol
       (case quiz_drops pol of None \<Rightarrow> 0 | Some d \<Rightarrow> d)"

definition homework_stage ::
  "(string \<Rightarrow> datetime option) \<Rightarrow> Scores \<Rightarrow> Policy \<Rightarrow> state \<Rightarrow> state \<times> error option" where
  "homework_stage P sc pol =
     category_stage P ''Homework Scores:'' ''homework'' ''Missing homework data''
       (Scores.homework sc)
       (DueDates.homework (due_dates pol)) (Weights.homework (weights pol)) pol 0"

definition reflection_stage ::
  "(string \<Rightarrow> datetime option) \<Rightarrow> Scores \<Rightarrow> Policy \<Rightarrow> state \<Rightarrow> state \<times> error option" where
  "reflection_stage P sc pol =
     category_stage P ''Reflection Scores:'' ''reflections'' ''Missing reflections data''
       (Scores.reflections sc)
       (DueDates.reflections (due_dates pol)) (Weights.reflections (weights pol)) pol 0"

text \<open>The loop of lines 190 to 195: the first entry at or below the total wins.\<close>

fun first_qualifying :: "real \<Rightarrow> (string \<times> real) list \<Rightarrow> string \<Rightarrow> string" where
  "first_qualifying tot [] letter_grade = letter_grade"
| "first_qualifying tot ((grade, min_score) # rest) letter_grade =
     (if tot \<ge> min_score then grade else first_qualifying tot rest letter_grade)"

definition resolve_letter_grade :: "(string \<times> real) list option \<Rightarrow> real \<Rightarrow> string" where
  \<comment> \<open>lines 188 to 195\<close>
  "resolve_letter_grade gs tot =
     (if truthy_dict gs then first_qualifying tot (sort_desc snd (the gs)) ''F'' else ''F'')"

definition final_stage :: "Policy \<Rightarrow> state \<Rightarrow> state \<times> error option" where
  \<comment> \<open>lines 188 to 216\<close>
  "final_stage pol st =
     (let letter_grade = resolve_letter_grade (grade_scale pol) (total_score st)
      in (st\<lparr>console := console st @
               [FinalSummary (total_score st) letter_grade,
                PolicyDetails (rate (late_penalty pol)) (max_penalty (late_penalty pol))
                  (quiz_drops pol)] @
               (if warning_messages st \<noteq> [] then [Warnings (warning_messages st)] else [])\<rparr>,
          None))"

definition and_then ::
  "(state \<Rightarrow> state \<times> error option) \<Rightarrow> (state \<Rightarrow> state \<times> error option)
     \<Rightarrow> state \<Rightarrow> state \<times> error option" where
  \<comment> \<open>one statement after another: an exception ends the run\<close>
  "and_then f g st = (case f st of (st', None) \<Rightarrow> g st' | (st', Some e) \<Rightarrow> (st', Some e))"

definition calculate_grade ::
  "(string \<Rightarrow> datetime option) \<Rightarrow> Grades option \<Rightarrow> Policy \<Rightarrow> state \<times> error option" where
  "calculate_grade P grades pol =
     (case grades of
        None \<Rightarrow> (init_state, Some (ValueError ''Invalid grades data''))
      | Some g \<Rightarrow>
         (case scores g of
            None \<Rightarrow> (init_state, Some (ValueError ''Invalid grades data''))
          | Some sc \<Rightarrow>
             and_then (project_stage P sc pol)
               (and_then (quiz_stage P sc pol)
                 (and_then (homework_stage P sc pol)
                   (and_then (reflection_stage P sc pol) (final_stage pol))))
               (init_state\<lparr>console :=
                  [Header (case Grades.name g of None \<Rightarrow> ''N/A'' | Some x \<Rightarrow> x)
                          (case ident g of None \<Rightarrow> ''N/A'' | Some x \<Rightarrow> x)]\<rparr>)))"

subsection \<open>Sample inputs and notions of the specification\<close>

text \<open>
  The values of \<open>datetime.fromisoformat\<close> on the three strings used in the examples
  below; the table knows no other string.
\<close>

definition sample_fromisoformat :: "string \<Rightarrow> datetime option" where
  "sample_fromisoformat s =
     (if s = ''2024-01-10T00:00:00+00:00'' then
        Some \<lparr>year = 2024, month = 1, day = 10, hour = 0, minute = 0, second = 0,
              microsecond = 0, tzinfo = Some 0\<rparr>
      else if s = ''2024-01-13T00:00:00+00:00'' then
        Some \<lparr>year = 2024, month = 1, day = 13, hour = 0, minute = 0, second = 0,
              microsecond = 0, tzinfo = Some 0\<rparr>
      else if s = ''2024-01-10T00:00:00'' then
        Some \<lparr>year = 2024, month = 1, day = 10, hour = 0, minute = 0, second = 0,
              microsecond = 0, tzinfo = None\<rparr>
      else None)"

text \<open>The quiz category of the specification's scenario, and its scored form.\<close>

definition sample_quizzes :: "(string \<times> Submission) list" where
  "sample_quizzes =
     [(''Q1'', \<lparr>score = 90, submitted_at = Some ''2024-01-10T00:00:00Z''\<rparr>),
      (''Q2'', \<lparr>score = 40, submitted_at = Some ''2024-01-10T00:00:00Z''\<rparr>),
      (''Q3'', \<lparr>score = 100, submitted_at = Some ''2024-01-10T00:00:00Z''\<rparr>)]"

definition sample_quiz_due :: "(string \<times> timestamp) list" where
  "sample_quiz_due =
     [(''Q1'', Some ''2024-01-10T00:00:00Z''), (''Q2'', Some ''2024-01-10T00:00:00Z''),
      (''Q3'', Some ''2024-01-10T00:00:00Z'')]"

definition sample_scored :: "AssignmentScore list" where
  "sample_scored =
     [\<lparr>AssignmentScore.name = ''Q1'', original_score = 90, adjusted_score = 90, days_late = 0\<rparr>,
      \<lparr>AssignmentScore.name = ''Q2'', original_score = 40, adjusted_score = 40, days_late = 0\<rparr>,
      \<lparr>AssignmentScore.name = ''Q3'', original_score = 100, adjusted_score = 100, days_late = 0\<rparr>]"

text \<open>
  Letter-grade resolution in the words of the specification. \<open>S\<close> is the scale sorted by
  threshold descending when it holds the same entries, its thresholds never rise, and
  entries of equal threshold keep the order in which the scale lists them. The letter is
  that of the first entry of \<open>S\<close> whose threshold is at most the total, and \<open>F\<close> if
  there is none.
\<close>

definition sorted_by_threshold_desc ::
  "(string \<times> real) list \<Rightarrow> (string \<times> real) list \<Rightarrow> bool" where
  "sorted_by_threshold_desc entries S =
     (mset S = mset entries
      \<and> sorted_wrt (\<lambda>a b. snd b \<le> snd a) S
      \<and> (\<forall>e\<in>set entries. filter (\<lambda>x. snd x = snd e) S = filter (\<lambda>x. snd x = snd e) entries))"

definition spec_first_qualifying :: "(string \<times> real) list \<Rightarrow> real \<Rightarrow> string" where
  "spec_first_qualifying S tot =
     (case find (\<lambda>(g, m). m \<le> tot) S of None \<Rightarrow> ''F'' | Some (g, m) \<Rightarrow> g)"

text \<open>
  The rank of a letter is its threshold in the scale; a letter that the scale does not
  list ranks below every listed one. A scale is monotonically ordered when its letters
  are distinct and its thresholds never rise along the listing. The failing grade is
  lowest when no entry has a threshold below that of \<open>F\<close>, should \<open>F\<close> be listed.
\<close>

definition rank :: "(string \<times> real) list \<Rightarrow> string \<Rightarrow> real option" where
  "rank gs g = map_of gs g"

definition monotonically_ordered :: "(string \<times> real) list \<Rightarrow> bool" where
  "monotonically_ordered gs =
     (distinct (map fst gs) \<and> sorted_wrt (\<lambda>a b. snd b \<le> snd a) gs)"

definition failing_grade_lowest :: "(string \<times> real) list \<Rightarrow> bool" where
  "failing_grade_lowest gs = (\<forall>(g, m) \<in> set gs. rank gs ''F'' \<le> Some m)"

definition sample_scale :: "(string \<times> real) list" where
  "sample_scale = [(''A'', 90), (''B'', 80), (''C'', 70), (''F'', 0)]"

text \<open>
  The same scale listed from the bottom up, and a scale that lists a grade below \<open>F\<close>.
\<close>

definition unsorted_scale :: "(string \<times> real) list" where
  "unsorted_scale = [(''F'', 0), (''C'', 70), (''B'', 80), (''A'', 90)]"

definition no_credit_scale :: "(string \<times> real) list" where
  "no_credit_scale = [(''A'', 90), (''F'', 60), (''NC'', 30)]"

text \<open>
  A student with a project three days late and the three quizzes, under a policy that
  weighs the project and the quizzes only; and the same policy with a project weight of 0.
\<close>

definition sample_policy :: Policy where
  "sample_policy =
     \<lparr>weights = \<lparr>Weights.project = Some (2/5), quizzes = Some (1/5), homework = None,
                 reflections = None\<rparr>,
      due_dates = \<lparr>DueDates.project = Some (Some ''2024-01-10T00:00:00Z''),
                   quizzes = Some sample_quiz_due, homework = None, reflections = None\<rparr>,
      late_penalty = \<lparr>rate = 1/10, max_penalty = 1/2\<rparr>,
      quiz_drops = Some 1,
      grade_scale = Some sample_scale\<rparr>"

definition sample_scores :: Scores where
  "sample_scores =
     \<lparr>Scores.project = Some \<lparr>score = 80, submitted_at = Some ''2024-01-13T00:00:00Z''\<rparr>,
      quizzes = Some sample_quizzes, homework = None, reflections = None\<rparr>"

definition sample_grades :: Grades where
  "sample_grades = \<lparr>Grades.name = Some ''Ada'', ident = Some ''17'', scores = Some sample_scores\<rparr>"

definition zero_weight_policy :: Policy where
  "zero_weight_policy =
     sample_policy\<lparr>weights := \<lparr>Weights.project = Some 0, quizzes = Some (1/5), homework = None,
                 reflections = None\<rparr>\<rparr>"

text \<open>What a stage adds to \<open>warning_messages\<close>, and when the project stage runs.\<close>

definition stage_warnings :: "bool \<Rightarrow> string \<Rightarrow> string list" where
  "stage_warnings executed msg = (if executed then [] else [msg])"

definition project_runs :: "Scores \<Rightarrow> Policy \<Rightarrow> bool" where
  "project_runs sc pol =
     (Scores.project sc \<noteq> None \<and> truthy_weight (Weights.project (weights pol)))"

section \<open>Properties\<close>

subsection \<open>The late penalty\<close>

lemmas calendar_defs = wall_clock_def ymd2ord_def days_before_year_def days_before_month_def
  is_leap_def days_def

lemma sample_parse_simps:
  "sample_fromisoformat (replace_Z ''2024-01-13T00:00:00Z'') =
     Some \<lparr>year = 2024, month = 1, day = 13, hour = 0, minute = 0, second = 0,
              microsecond = 0, tzinfo = Some 0\<rparr>"
  "sample_fromisoformat (replace_Z ''2024-01-10T00:00:00Z'') =
     Some \<lparr>year = 2024, month = 1, day = 10, hour = 0, minute = 0, second = 0,
              microsecond = 0, tzinfo = Some 0\<rparr>"
  "sample_fromisoformat (replace_Z ''2024-01-10T00:00:00'') =
     Some \<lparr>year = 2024, month = 1, day = 10, hour = 0, minute = 0, second = 0,
              microsecond = 0, tzinfo = None\<rparr>"
  by (simp_all add: sample_fromisoformat_def replace_Z_def)

lemma days_floor: "days el = \<lfloor>real_of_int el / 86400000000\<rfloor>"
  using floor_divide_of_int_eq[of el 86400000000, where ?'a = real] by (simp add: days_def)

lemma datetime_sub_same_kind:
  assumes "(tzinfo a = None) = (tzinfo b = None)"
  shows "\<exists>el. datetime_sub a b = Inr el"
  using assms by (cases "tzinfo a"; cases "tzinfo b") (simp_all add: datetime_sub_def)

lemma calculate_late_penalty_parsed:
  assumes "s \<noteq> []" "d \<noteq> []"
    and "P (replace_Z s) = Some ts" "P (replace_Z d) = Some td"
    and "datetime_sub ts td = Inr el"
  shows "calculate_late_penalty P (Some s) (Some d) r m =
           ([], Inr \<lparr>PenaltyResult.days_late = max 0 (days el),
                      penalty = min m (r * real_of_int (max 0 (days el)))\<rparr>)"
  using assms by (simp add: calculate_late_penalty_def falsy_def fromisoformat_def Let_def)

lemma penalty_bounds:
  assumes "0 \<le> r" "0 \<le> m" "0 \<le> (k::int)"
  shows "0 \<le> min m (r * real_of_int k)" "min m (r * real_of_int k) \<le> m"
  using assms by simp_all

text \<open>
  Claim C1, as amended. Both timestamps are non-empty strings that the library parses,
  and both carry a UTC offset or neither does; the rate and the cap lie in \<open>[0, 1]\<close>.
  Then the call returns, writes nothing to \<open>stderr\<close>, \<open>days_late\<close> is the floor of the
  elapsed time in days, but at least 0, the penalty is \<open>min(max_penalty, rate * days_late)\<close>
  and lies in \<open>[0, max_penalty]\<close>; a submission at or before the due date has
  \<open>days_late = 0\<close> and penalty 0.
\<close>

theorem late_penalty_same_kind:
  assumes "s \<noteq> []" "d \<noteq> []"
    and "P (replace_Z s) = Some ts" "P (replace_Z d) = Some td"
    and "(tzinfo ts = None) = (tzinfo td = None)"
    and "0 \<le> r" "r \<le> 1" "0 \<le> m" "m \<le> 1"
  shows "\<exists>el dl pen. datetime_sub ts td = Inr el
           \<and> calculate_late_penalty P (Some s) (Some d) r m =
               ([], Inr \<lparr>PenaltyResult.days_late = dl, penalty = pen\<rparr>)
           \<and> dl = max 0 \<lfloor>real_of_int el / 86400000000\<rfloor>
           \<and> pen = min m (r * real_of_int dl)
           \<and> 0 \<le> pen \<and> pen \<le> m
           \<and> (el \<le> 0 \<longrightarrow> dl = 0 \<and> pen = 0)"
proof -
  obtain el where el: "datetime_sub ts td = Inr el"
    using datetime_sub_same_kind[OF assms(5)] by blast
  let ?dl = "max 0 (days el)"
  let ?pen = "min m (r * real_of_int ?dl)"
  have run: "calculate_late_penalty P (Some s) (Some d) r m =
               ([], Inr \<lparr>PenaltyResult.days_late = ?dl, penalty = ?pen\<rparr>)"
    by (rule calculate_late_penalty_parsed[OF assms(1-4) el])
  have fl: "?dl = max 0 \<lfloor>real_of_int el / 86400000000\<rfloor>"
    by (simp add: days_floor)
  have b: "0 \<le> ?pen" "?pen \<le> m"
    using penalty_bounds[OF assms(6) assms(8), of ?dl] by simp_all
  have early: "el \<le> 0 \<longrightarrow> ?dl = 0 \<and> ?pen = 0"
  proof
    assume "el \<le> 0"
    then have "days el \<le> 0" unfolding days_def by (simp add: div_nonpos_pos_le0)
    then have "?dl = 0" by simp
    then show "?dl = 0 \<and> ?pen = 0" using assms(8) by simp
  qed
  show ?thesis using el run fl b early by blast
qed

text \<open>
  The scenario of the specification: three days late at 10 percent a day, capped at
  50 percent, costs 30 percent.
\<close>

theorem late_penalty_same_kind_witness:
  "\<exists>el. datetime_sub
      \<lparr>year = 2024, month = 1, day = 13, hour = 0, minute = 0, second = 0,
              microsecond = 0, tzinfo = Some 0\<rparr>
      \<lparr>year = 2024, month = 1, day = 10, hour = 0, minute = 0, second = 0,
              microsecond = 0, tzinfo = Some 0\<rparr> = Inr el
     \<and> calculate_late_penalty sample_fromisoformat (Some ''2024-01-13T00:00:00Z'')
         (Some ''2024-01-10T00:00:00Z'') (1/10) (1/2) =
         ([], Inr \<lparr>PenaltyResult.days_late = 3, penalty = 3/10\<rparr>)"
  using late_penalty_same_kind[of "''2024-01-13T00:00:00Z''" "''2024-01-10T00:00:00Z''"
      sample_fromisoformat _ _ "1/10" "1/2", OF _ _ sample_parse_simps(1) sample_parse_simps(2)]
  by (simp add: datetime_sub_def calendar_defs)

text \<open>
  Claim C1 as it is written fails: a submission time with the zone marker \<open>Z\<close> and a due
  date without one both parse, and the subtraction of line 38 raises \<open>TypeError\<close>.
\<close>

theorem late_penalty_mixed_kind_counterexample:
  "sample_fromisoformat (replace_Z ''2024-01-13T00:00:00Z'') \<noteq> None
   \<and> sample_fromisoformat (replace_Z ''2024-01-10T00:00:00'') \<noteq> None
   \<and> calculate_late_penalty sample_fromisoformat (Some ''2024-01-13T00:00:00Z'')
         (Some ''2024-01-10T00:00:00'') (1/10) (1/2) = ([], Inl TypeError)"
  by (simp add: sample_parse_simps calculate_late_penalty_def falsy_def fromisoformat_def
      datetime_sub_def)

text \<open>
  Claim C5. When the submission time or the due date is \<open>None\<close> or the empty string, the
  call does not raise: it writes the missing-date warning to \<open>stderr\<close> and returns
  \<open>days_late = 0\<close> and penalty 0.
\<close>

theorem missing_date_degrades:
  assumes "s = None \<or> s = Some [] \<or> d = None \<or> d = Some []"
  shows "calculate_late_penalty P s d r m =
           ([missing_date_warning s d], Inr \<lparr>PenaltyResult.days_late = 0, penalty = 0\<rparr>)"
  using assms by (auto simp: calculate_late_penalty_def falsy_def)

theorem missing_date_degrades_witness:
  "calculate_late_penalty sample_fromisoformat (Some ''2024-01-13T00:00:00Z'') None (1/10) (1/2) =
     ([''Warning: Missing date - submitted: 2024-01-13T00:00:00Z, due: None''],
      Inr \<lparr>PenaltyResult.days_late = 0, penalty = 0\<rparr>)"
  using missing_date_degrades[of "Some ''2024-01-13T00:00:00Z''" None sample_fromisoformat "1/10" "1/2"]
  by (simp add: missing_date_warning_def str_of_def)

subsection \<open>Scoring and aggregating a category\<close>

lemma sample_on_time:
  "calculate_late_penalty sample_fromisoformat (Some ''2024-01-10T00:00:00Z'')
     (Some ''2024-01-10T00:00:00Z'') (1/10) (1/2) =
     ([], Inr \<lparr>PenaltyResult.days_late = 0, penalty = 0\<rparr>)"
  by (simp add: calculate_late_penalty_def falsy_def fromisoformat_def sample_parse_simps
      datetime_sub_def days_def)

lemma sample_three_days:
  "calculate_late_penalty sample_fromisoformat (Some ''2024-01-13T00:00:00Z'')
     (Some ''2024-01-10T00:00:00Z'') (1/10) (1/2) =
     ([], Inr \<lparr>PenaltyResult.days_late = 3, penalty = 3/10\<rparr>)"
  by (simp add: calculate_late_penalty_def falsy_def fromisoformat_def sample_parse_simps
      datetime_sub_def calendar_defs)

lemma sample_scored_eq:
  "score_assignments sample_fromisoformat sample_quizzes sample_quiz_due (1/10) (1/2) =
     ([], Inr sample_scored)"
  by (simp add: sample_quizzes_def sample_quiz_due_def sample_scored_def get_or_empty_def
      sample_on_time)

lemma penalty_nonneg:
  assumes "calculate_late_penalty P s d r m = (out, Inr pen)" "0 \<le> r" "0 \<le> m"
  shows "0 \<le> penalty pen"
  using assms
  by (auto simp: calculate_late_penalty_def Let_def split: if_splits sum.splits)

lemma score_assignments_length:
  "score_assignments P items due r m = (out, Inr as) \<Longrightarrow> length as = length items"
proof (induction items arbitrary: out as)
  case Nil
  then show ?case by simp
next
  case (Cons x items)
  obtain n a where x: "x = (n, a)" by (cases x)
  from Cons.prems show ?case
    using Cons.IH unfolding x
    by (auto split: prod.splits sum.splits)
qed

lemma score_assignments_adjusted:
  assumes "score_assignments P items due r m = (out, Inr as)" "0 \<le> r" "0 \<le> m"
    and "a \<in> set as"
  shows "\<exists>p\<ge>0. adjusted_score a = original_score a * (1 - p)"
  using assms(1,4)
proof (induction items arbitrary: out as)
  case Nil
  then show ?case by simp
next
  case (Cons x items)
  obtain n sub where x: "x = (n, sub)" by (cases x)
  obtain o1 pen where p1: "calculate_late_penalty P (submitted_at sub) (get_or_empty due n) r m
      = (o1, Inr pen)"
    using Cons.prems(1) unfolding x by (auto split: prod.splits sum.splits)
  obtain o2 rest where p2: "score_assignments P items due r m = (o2, Inr rest)"
    using Cons.prems(1) p1 unfolding x by (auto split: prod.splits sum.splits)
  have as: "as = \<lparr>AssignmentScore.name = n, original_score = score sub,
                   adjusted_score = score sub * (1 - penalty pen),
                   days_late = PenaltyResult.days_late pen\<rparr> # rest"
    using Cons.prems(1) p1 p2 unfolding x by simp
  show ?case
  proof (cases "a \<in> set rest")
    case True
    then show ?thesis using Cons.IH[OF p2] by blast
  next
    case False
    then have "a = \<lparr>AssignmentScore.name = n, original_score = score sub,
                   adjusted_score = score sub * (1 - penalty pen),
                   days_late = PenaltyResult.days_late pen\<rparr>"
      using Cons.prems(2) as by simp
    moreover have "0 \<le> penalty pen" by (rule penalty_nonneg[OF p1 assms(2,3)])
    ultimately show ?thesis by auto
  qed
qed

text \<open>
  Claim C8, as amended. Every \<open>AssignmentScore\<close> built by the loop from a score that is
  not negative, under a rate and a cap that are not negative, has
  \<open>adjusted_score = original_score * (1 - p)\<close> for a penalty fraction \<open>p \<ge> 0\<close>, and so
  \<open>adjusted_score \<le> original_score\<close>.
\<close>

theorem adjusted_le_original:
  assumes "score_assignments P items due r m = (out, Inr as)" "0 \<le> r" "0 \<le> m"
    and "a \<in> set as" "0 \<le> original_score a"
  shows "\<exists>p\<ge>0. adjusted_score a = original_score a * (1 - p)
           \<and> adjusted_score a \<le> original_score a"
proof -
  obtain p where p: "0 \<le> p" "adjusted_score a = original_score a * (1 - p)"
    using score_assignments_adjusted[OF assms(1-4)] by blast
  have "original_score a * (1 - p) \<le> original_score a * 1"
    by (rule mult_left_mono) (use p(1) assms(5) in simp_all)
  then show ?thesis using p by auto
qed

lemma sample_late_eq:
  "score_assignments sample_fromisoformat
     [(''Q1'', \<lparr>score = 90, submitted_at = Some ''2024-01-13T00:00:00Z''\<rparr>)]
     [(''Q1'', Some ''2024-01-10T00:00:00Z'')] (1/10) (1/2) =
     ([], Inr [\<lparr>AssignmentScore.name = ''Q1'', original_score = 90, adjusted_score = 63,
                days_late = 3\<rparr>])"
  by (simp add: get_or_empty_def sample_three_days)

theorem adjusted_le_original_witness:
  "score_assignments sample_fromisoformat
     [(''Q1'', \<lparr>score = 90, submitted_at = Some ''2024-01-13T00:00:00Z''\<rparr>)]
     [(''Q1'', Some ''2024-01-10T00:00:00Z'')] (1/10) (1/2) =
     ([], Inr [\<lparr>AssignmentScore.name = ''Q1'', original_score = 90, adjusted_score = 63,
                days_late = 3\<rparr>])
   \<and> (\<exists>p\<ge>0. (63::real) = 90 * (1 - p) \<and> (63::real) \<le> 90)"
  using adjusted_le_original[OF sample_late_eq, of
      "\<lparr>AssignmentScore.name = ''Q1'', original_score = 90, adjusted_score = 63, days_late = 3\<rparr>"]
    sample_late_eq
  by simp

text \<open>
  Claim C8 as it is written fails on a negative score: 3 days late at 10 percent a day
  turns \<open>-10\<close> into \<open>-7\<close>, which is above the original.
\<close>

theorem negative_score_counterexample:
  "score_assignments sample_fromisoformat
     [(''Q1'', \<lparr>score = - 10, submitted_at = Some ''2024-01-13T00:00:00Z''\<rparr>)]
     [(''Q1'', Some ''2024-01-10T00:00:00Z'')] (1/10) (1/2) =
     ([], Inr [\<lparr>AssignmentScore.name = ''Q1'', original_score = - 10, adjusted_score = - 7,
                days_late = 3\<rparr>])
   \<and> \<not> ((- 7 :: real) \<le> - 10)"
  by (simp add: get_or_empty_def sample_three_days)

lemma sort_desc_length: "length (sort_desc f xs) = length xs"
  by (simp add: sort_desc_def)

lemma sort_desc_mset: "mset (sort_desc f xs) = mset xs"
  by (simp add: sort_desc_def)

lemma sort_desc_sorted: "sorted_wrt (\<lambda>a b. f b \<le> f a) (sort_desc f xs)"
proof -
  have "sorted (map (\<lambda>x. - f x) (sort_desc f xs))"
    unfolding sort_desc_def by (rule sorted_sort_key)
  then show ?thesis by (simp add: sorted_map)
qed

lemma sort_desc_stable:
  "filter (\<lambda>a. f a = v) (sort_desc f xs) = filter (\<lambda>a. f a = v) xs"
  using sort_key_stable[of "\<lambda>x. - f x" "- v" xs] by (simp add: sort_desc_def)

lemma sort_desc_Nil_iff: "sort_desc f xs = [] \<longleftrightarrow> xs = []"
  using sort_desc_length[of f xs] by (metis length_0_conv)

lemma aggregate_drop:
  assumes "0 < k" "k < int (length as)"
  shows "aggregate c w k as =
           Inr (sum_list (map adjusted_score (take (length as - nat k) (sort_desc adjusted_score as)))
                  / real (length as - nat k) * w,
                \<lparr>heading = c, rows = take (length as - nat k) (sort_desc adjusted_score as)\<rparr>)"
proof -
  have "\<not> length as \<le> nat k" using assms by linarith
  moreover have "as \<noteq> []" using assms by auto
  ultimately show ?thesis using assms(1)
    by (simp add: aggregate_def drop_last_def Let_def sort_desc_length sort_desc_Nil_iff)
qed

text \<open>
  Claim C2. A category of \<open>n\<close> assignments whose penalties are all computed, aggregated
  with \<open>0 < k < n\<close> drops, returns. Its rows are \<open>n - k\<close> survivors; survivors and dropped
  together are the assignments scored; no dropped assignment has a higher adjusted score
  than a survivor; among equal adjusted scores the order of the input is kept, so the
  later entries of a tie are the ones dropped; and the weighted score is the sum of the
  survivors' adjusted scores over their number, times the weight.
\<close>

theorem drop_lowest_keeps_highest:
  assumes "score_assignments P items due r m = (out, Inr as)"
    and "0 < k" "k < int (length items)"
  shows "\<exists>kept dropped.
           process_assignment_category P c items due w r m k =
             (out, Inr (sum_list (map adjusted_score kept) / real (length kept) * w,
                        \<lparr>heading = c, rows = kept\<rparr>))
         \<and> length kept = length items - nat k \<and> length dropped = nat k
         \<and> mset (kept @ dropped) = mset as
         \<and> (\<forall>a\<in>set kept. \<forall>b\<in>set dropped. adjusted_score b \<le> adjusted_score a)
         \<and> sorted_wrt (\<lambda>a b. adjusted_score b \<le> adjusted_score a) (kept @ dropped)
         \<and> (\<forall>v. filter (\<lambda>a. adjusted_score a = v) (kept @ dropped) =
                  filter (\<lambda>a. adjusted_score a = v) as)"
proof -
  let ?S = "sort_desc adjusted_score as"
  let ?n = "length as - nat k"
  let ?kept = "take ?n ?S"
  let ?dropped = "drop ?n ?S"
  have len: "length as = length items" by (rule score_assignments_length[OF assms(1)])
  have k: "0 < k" "k < int (length as)" using assms(2,3) len by simp_all
  have run: "process_assignment_category P c items due w r m k =
               (out, Inr (sum_list (map adjusted_score ?kept) / real (length ?kept) * w,
                          \<lparr>heading = c, rows = ?kept\<rparr>))"
    using aggregate_drop[OF k, of c w] assms(1)
    by (simp add: process_assignment_category_def sort_desc_length)
  have l1: "length ?kept = length items - nat k" by (simp add: sort_desc_length len)
  have l2: "length ?dropped = nat k" using k by (simp add: sort_desc_length)
  have app: "?kept @ ?dropped = ?S" by simp
  have ms: "mset (?kept @ ?dropped) = mset as" unfolding app by (rule sort_desc_mset)
  have so: "sorted_wrt (\<lambda>a b. adjusted_score b \<le> adjusted_score a) (?kept @ ?dropped)"
    unfolding app by (rule sort_desc_sorted)
  have cross: "\<forall>a\<in>set ?kept. \<forall>b\<in>set ?dropped. adjusted_score b \<le> adjusted_score a"
    using so unfolding sorted_wrt_append by blast
  have st: "\<forall>v. filter (\<lambda>a. adjusted_score a = v) (?kept @ ?dropped) =
                  filter (\<lambda>a. adjusted_score a = v) as"
    unfolding app by (simp add: sort_desc_stable)
  show ?thesis using run l1 l2 ms cross so st by blast
qed

lemma sample_drop_run:
  "process_assignment_category sample_fromisoformat ''quizzes'' sample_quizzes sample_quiz_due
       (1/5) (1/10) (1/2) 1 =
     ([], Inr (19,
        \<lparr>heading = ''quizzes'',
          rows = [\<lparr>AssignmentScore.name = ''Q3'', original_score = 100, adjusted_score = 100, days_late = 0\<rparr>,
                  \<lparr>AssignmentScore.name = ''Q1'', original_score = 90, adjusted_score = 90, days_late = 0\<rparr>]\<rparr>))"
  by (simp add: process_assignment_category_def sample_scored_eq aggregate_def drop_last_def
      sort_desc_def sample_scored_def)

text \<open>
  The scenario of the specification: quizzes of 90, 40 and 100 on time, one drop,
  weight 0.2: the 40 is dropped and the weighted score is 19.
\<close>

theorem drop_lowest_keeps_highest_witness:
  "\<exists>kept dropped.
     process_assignment_category sample_fromisoformat ''quizzes'' sample_quizzes sample_quiz_due
       (1/5) (1/10) (1/2) 1 =
       ([], Inr (19, \<lparr>heading = ''quizzes'', rows = kept\<rparr>))
     \<and> length kept = 2 \<and> length dropped = 1
     \<and> mset (kept @ dropped) = mset sample_scored
     \<and> (\<forall>a\<in>set kept. \<forall>b\<in>set dropped. adjusted_score b \<le> adjusted_score a)"
proof -
  have n: "(1::int) < int (length sample_quizzes)" by (simp add: sample_quizzes_def)
  from drop_lowest_keeps_highest[OF sample_scored_eq _ n, of "''quizzes''" "1/5"]
  obtain kept dropped where h:
    "process_assignment_category sample_fromisoformat ''quizzes'' sample_quizzes sample_quiz_due
       (1/5) (1/10) (1/2) 1 =
       (([]::string list), Inr (sum_list (map adjusted_score kept) / real (length kept) * (1/5),
                  \<lparr>heading = ''quizzes'', rows = kept\<rparr>))"
    "length kept = length sample_quizzes - nat 1" "length dropped = nat 1"
    "mset (kept @ dropped) = mset sample_scored"
    "\<forall>a\<in>set kept. \<forall>b\<in>set dropped. adjusted_score b \<le> adjusted_score a"
    by auto
  have "sum_list (map adjusted_score kept) / real (length kept) * (1/5) = 19"
    using h(1) unfolding sample_drop_run by simp
  then show ?thesis using h by (auto simp: sample_quizzes_def)
qed

text \<open>
  Claim C9. When the number of drops is at least the number of assignments, the call
  raises: an exception of the loop if a penalty cannot be computed, and otherwise
  \<open>ZeroDivisionError\<close> from the division by the number of survivors on line 73, which
  nothing guards. (The specification calls this failure EmptyCategoryError.)
\<close>

theorem empty_survivors_fail:
  assumes "int (length items) \<le> k"
  shows "(\<exists>e. snd (process_assignment_category P c items due w r m k) = Inl e)
       \<and> (\<forall>out as. score_assignments P items due r m = (out, Inr as) \<longrightarrow>
            process_assignment_category P c items due w r m k = (out, Inl ZeroDivisionError))"
proof -
  have ok: "process_assignment_category P c items due w r m k = (out, Inl ZeroDivisionError)"
    if h: "score_assignments P items due r m = (out, Inr as)" for out as
  proof -
    have len: "length as = length items" by (rule score_assignments_length[OF h])
    have "aggregate c w k as = Inl ZeroDivisionError"
    proof (cases "0 < k")
      case True
      then have "length as \<le> nat k" using assms len by linarith
      then show ?thesis using True
        by (simp add: aggregate_def drop_last_def Let_def sort_desc_length)
    next
      case False
      then have "length as = 0" using assms len by linarith
      then have "as = []" by simp
      then show ?thesis using False by (simp add: aggregate_def)
    qed
    then show ?thesis using h by (simp add: process_assignment_category_def)
  qed
  have "\<exists>e. snd (process_assignment_category P c items due w r m k) = Inl e"
  proof (cases "score_assignments P items due r m")
    case (Pair out res)
    show ?thesis
    proof (cases res)
      case (Inl e)
      then show ?thesis using Pair by (simp add: process_assignment_category_def)
    next
      case (Inr as)
      then show ?thesis using ok[of out as] Pair by simp
    qed
  qed
  then show ?thesis using ok by blast
qed

theorem empty_survivors_fail_witness:
  "process_assignment_category sample_fromisoformat ''quizzes'' sample_quizzes sample_quiz_due
       (1/5) (1/10) (1/2) 3 = ([], Inl ZeroDivisionError)"
proof -
  have n: "int (length sample_quizzes) \<le> 3" by (simp add: sample_quizzes_def)
  show ?thesis
    using empty_survivors_fail[OF n, of sample_fromisoformat "''quizzes''" sample_quiz_due
        "1/5" "1/10" "1/2"] sample_scored_eq
    by blast
qed

subsection \<open>The letter grade\<close>

lemma first_qualifying_find:
  "first_qualifying tot xs d =
     (case find (\<lambda>(g, m). m \<le> tot) xs of None \<Rightarrow> d | Some (g, m) \<Rightarrow> g)"
  by (induction xs) auto

lemma qualifies_snd: "(\<lambda>(g, m). m \<le> t) = (\<lambda>e. snd e \<le> t)"
  by (rule ext) (simp add: case_prod_beta)

lemma find_in_set:
  "find Q xs = Some e \<Longrightarrow> e \<in> set xs \<and> Q e"
  by (induction xs) (auto split: if_splits)

lemma resolve_Some:
  "resolve_letter_grade (Some gs) tot =
     (case find (\<lambda>e. snd e \<le> tot) (sort_desc snd gs) of None \<Rightarrow> ''F'' | Some e \<Rightarrow> fst e)"
proof (cases "gs = []")
  case True
  then show ?thesis by (simp add: resolve_letter_grade_def truthy_dict_def sort_desc_def)
next
  case False
  then show ?thesis
    by (simp add: resolve_letter_grade_def truthy_dict_def first_qualifying_find qualifies_snd
        case_prod_beta split: option.splits)
qed

text \<open>The sort of line 190 is the one list that is sorted by threshold descending.\<close>

lemma sort_desc_sorted_by_threshold: "sorted_by_threshold_desc entries (sort_desc snd entries)"
  unfolding sorted_by_threshold_desc_def
  by (simp add: sort_desc_mset sort_desc_sorted sort_desc_stable)

lemma sorted_by_threshold_unique:
  assumes "sorted_by_threshold_desc entries S"
  shows "sort_desc snd entries = S"
  unfolding sort_desc_def
proof (rule properties_for_sort_key)
  show "mset S = mset entries" using assms by (simp add: sorted_by_threshold_desc_def)
next
  fix k assume "k \<in> set S"
  then have "k \<in> set entries"
    using assms mset_eq_setD unfolding sorted_by_threshold_desc_def by blast
  then have h: "filter (\<lambda>x. snd x = snd k) S = filter (\<lambda>x. snd x = snd k) entries"
    using assms by (simp add: sorted_by_threshold_desc_def)
  have c: "(\<lambda>x. - snd k = - snd x) = (\<lambda>x. snd x = snd k)"
    by (rule ext) auto
  show "filter (\<lambda>x. - snd k = - snd x) S = filter (\<lambda>x. - snd k = - snd x) entries"
    unfolding c by (rule h)
next
  have "sorted_wrt (\<lambda>a b. snd b \<le> snd a) S"
    using assms by (simp add: sorted_by_threshold_desc_def)
  then show "sorted (map (\<lambda>x. - snd x) S)" by (simp add: sorted_map)
qed

lemma first_qualifying_is_highest:
  fixes xs :: "(string \<times> real) list"
  assumes "sorted_wrt (\<lambda>a b. snd b \<le> snd a) xs"
    and "find (\<lambda>e. snd e \<le> t) xs = Some e" "e' \<in> set xs" "snd e' \<le> t"
  shows "snd e' \<le> snd e"
  using assms
proof (induction xs)
  case Nil
  then show ?case by simp
next
  case (Cons x xs)
  show ?case
  proof (cases "snd x \<le> t")
    case True
    then have "e = x" using Cons.prems(2) by simp
    then show ?thesis using Cons.prems(1,3) by auto
  next
    case False
    then have "find (\<lambda>e. snd e \<le> t) xs = Some e" using Cons.prems(2) by simp
    moreover have "e' \<in> set xs" using Cons.prems(3,4) False by auto
    moreover have "sorted_wrt (\<lambda>a b. snd b \<le> snd a) xs" using Cons.prems(1) by simp
    ultimately show ?thesis using Cons.IH Cons.prems(4) by blast
  qed
qed

text \<open>
  Claim C3. For every total and every scale the letter computed by lines 188 to 195 is
  that of the first entry whose threshold is at most the total, going through the
  entries sorted by threshold descending (entries of equal threshold in the order of the
  scale). So when some entry qualifies, the letter belongs to an entry of the scale
  that qualifies and no qualifying entry has a higher threshold. When no entry
  qualifies or the scale is absent the letter is \<open>F\<close>. With the scale
  A 90, B 80, C 70, F 0 a total of 85 gives \<open>B\<close>.
\<close>

theorem letter_grade_first_qualifying:
  "(sorted_by_threshold_desc entries S \<longrightarrow>
      resolve_letter_grade (Some entries) tot = spec_first_qualifying S tot)
   \<and> ((\<exists>(g, m) \<in> set entries. m \<le> tot) \<longrightarrow>
        (\<exists>m. (resolve_letter_grade (Some entries) tot, m) \<in> set entries \<and> m \<le> tot
           \<and> (\<forall>(g', m') \<in> set entries. m' \<le> tot \<longrightarrow> m' \<le> m)))
   \<and> ((\<forall>(g, m) \<in> set entries. tot < m) \<longrightarrow> resolve_letter_grade (Some entries) tot = ''F'')
   \<and> resolve_letter_grade None tot = ''F''
   \<and> resolve_letter_grade (Some [(''A'', 90), (''B'', 80), (''C'', 70), (''F'', 0)]) 85 = ''B''"
proof -
  let ?S = "sort_desc snd entries"
  have set_S: "set ?S = set entries" by (simp add: sort_desc_def)
  have a: "sorted_by_threshold_desc entries S \<longrightarrow>
      resolve_letter_grade (Some entries) tot = spec_first_qualifying S tot"
  proof
    assume "sorted_by_threshold_desc entries S"
    then have "sort_desc snd entries = S" by (rule sorted_by_threshold_unique)
    then show "resolve_letter_grade (Some entries) tot = spec_first_qualifying S tot"
      by (simp add: resolve_Some spec_first_qualifying_def qualifies_snd case_prod_beta
          split: option.splits)
  qed
  have b: "(\<exists>(g, m) \<in> set entries. m \<le> tot) \<longrightarrow>
        (\<exists>m. (resolve_letter_grade (Some entries) tot, m) \<in> set entries \<and> m \<le> tot
           \<and> (\<forall>(g', m') \<in> set entries. m' \<le> tot \<longrightarrow> m' \<le> m))"
  proof
    assume "\<exists>(g, m) \<in> set entries. m \<le> tot"
    then obtain g m where gm: "(g, m) \<in> set entries" "m \<le> tot" by auto
    have "(g, m) \<in> set ?S \<and> snd (g, m) \<le> tot" using gm set_S by simp
    then have "\<exists>x. x \<in> set ?S \<and> snd x \<le> tot" by (rule exI)
    then have "find (\<lambda>e. snd e \<le> tot) ?S \<noteq> None" by (simp add: find_None_iff)
    then obtain e where e: "find (\<lambda>e. snd e \<le> tot) ?S = Some e" by auto
    have r: "resolve_letter_grade (Some entries) tot = fst e" using e by (simp add: resolve_Some)
    have in_e: "e \<in> set entries" "snd e \<le> tot" using find_in_set[OF e] set_S by simp_all
    have top: "snd e' \<le> snd e" if "e' \<in> set entries" "snd e' \<le> tot" for e'
      using first_qualifying_is_highest[OF sort_desc_sorted e] that set_S by simp
    have "(fst e, snd e) \<in> set entries \<and> snd e \<le> tot
           \<and> (\<forall>(g', m') \<in> set entries. m' \<le> tot \<longrightarrow> m' \<le> snd e)"
      using in_e top by (auto simp: case_prod_beta)
    then show "\<exists>m. (resolve_letter_grade (Some entries) tot, m) \<in> set entries \<and> m \<le> tot
           \<and> (\<forall>(g', m') \<in> set entries. m' \<le> tot \<longrightarrow> m' \<le> m)"
      unfolding r by blast
  qed
  have c: "(\<forall>(g, m) \<in> set entries. tot < m) \<longrightarrow> resolve_letter_grade (Some entries) tot = ''F''"
  proof
    assume h: "\<forall>(g, m) \<in> set entries. tot < m"
    have "\<not> (\<exists>x. x \<in> set ?S \<and> snd x \<le> tot)" using h set_S by (auto simp: case_prod_beta)
    then have "find (\<lambda>e. snd e \<le> tot) ?S = None" by (simp add: find_None_iff)
    then show "resolve_letter_grade (Some entries) tot = ''F''" by (simp add: resolve_Some)
  qed
  have d: "resolve_letter_grade None tot = ''F''"
    by (simp add: resolve_letter_grade_def truthy_dict_def)
  have e: "resolve_letter_grade (Some [(''A'', 90), (''B'', 80), (''C'', 70), (''F'', 0)]) 85 = ''B''"
    by (simp add: resolve_letter_grade_def truthy_dict_def sort_desc_def)
  show ?thesis using a b c d e by blast
qed

text \<open>
  On the scale listed from the bottom up the sorted list is the scale listed from the
  top down, so a total of 95 gives \<open>A\<close>, not the \<open>F\<close> that the listing order would
  give; and a total below every threshold gives \<open>F\<close>.
\<close>

lemma unsorted_scale_sorted: "sorted_by_threshold_desc unsorted_scale sample_scale"
  by (simp add: sorted_by_threshold_desc_def unsorted_scale_def sample_scale_def)

theorem letter_grade_first_qualifying_witness:
  "sorted_by_threshold_desc unsorted_scale sample_scale
   \<and> resolve_letter_grade (Some unsorted_scale) 95 = ''A''
   \<and> (\<exists>m. (''A'', m) \<in> set unsorted_scale \<and> m \<le> 95
         \<and> (\<forall>(g', m') \<in> set unsorted_scale. m' \<le> 95 \<longrightarrow> m' \<le> m))
   \<and> resolve_letter_grade (Some [(''A'', 90), (''B'', 80)]) 50 = ''F''"
proof -
  have sp: "spec_first_qualifying sample_scale 95 = ''A''"
    by (simp add: spec_first_qualifying_def sample_scale_def)
  have r: "resolve_letter_grade (Some unsorted_scale) 95 = ''A''"
    using letter_grade_first_qualifying[of unsorted_scale sample_scale 95]
      unsorted_scale_sorted sp by simp
  have q: "\<exists>(g, m) \<in> set unsorted_scale. m \<le> 95" by (simp add: unsorted_scale_def)
  have h: "\<exists>m. (''A'', m) \<in> set unsorted_scale \<and> m \<le> 95
         \<and> (\<forall>(g', m') \<in> set unsorted_scale. m' \<le> 95 \<longrightarrow> m' \<le> m)"
    using letter_grade_first_qualifying[of unsorted_scale sample_scale 95] q unfolding r by blast
  have n: "\<forall>(g, m) \<in> set [(''A'', 90), (''B'', 80::real)]. (50::real) < m" by simp
  have f: "resolve_letter_grade (Some [(''A'', 90), (''B'', 80)]) 50 = ''F''"
    using letter_grade_first_qualifying[of "[(''A'', 90), (''B'', 80)]" _ 50] n by blast
  show ?thesis using unsorted_scale_sorted r h f by blast
qed

lemma find_qualifying_mono:
  fixes xs :: "(string \<times> real) list"
  assumes "sorted_wrt (\<lambda>a b. snd b \<le> snd a) xs" "s1 \<le> s2"
    and "find (\<lambda>e. snd e \<le> s1) xs = Some e1"
  shows "\<exists>e2. find (\<lambda>e. snd e \<le> s2) xs = Some e2 \<and> snd e1 \<le> snd e2"
  using assms(1,3)
proof (induction xs)
  case Nil
  then show ?case by simp
next
  case (Cons x xs)
  show ?case
  proof (cases "snd x \<le> s2")
    case True
    have "e1 \<in> set (x # xs)" using find_in_set[OF Cons.prems(2)] by simp
    then have "snd e1 \<le> snd x" using Cons.prems(1) by auto
    then show ?thesis using True by simp
  next
    case False
    then have "\<not> snd x \<le> s1" using assms(2) by simp
    then have "find (\<lambda>e. snd e \<le> s1) xs = Some e1"
      using Cons.prems(2) by simp
    moreover have "sorted_wrt (\<lambda>a b. snd b \<le> snd a) xs" using Cons.prems(1) by simp
    ultimately show ?thesis using Cons.IH False by simp
  qed
qed

text \<open>
  Monotonicity needs distinct letters and a failing grade that is lowest; the order in
  which the scale lists its entries plays no part.
\<close>

lemma rank_monotone:
  assumes dist: "distinct (map fst gs)" and lowest: "failing_grade_lowest gs" and le: "s1 \<le> s2"
  shows "rank gs (resolve_letter_grade (Some gs) s1) \<le> rank gs (resolve_letter_grade (Some gs) s2)"
proof -
  let ?S = "sort_desc snd gs"
  have low: "\<And>g m. (g, m) \<in> set gs \<Longrightarrow> rank gs ''F'' \<le> Some m"
    using lowest by (auto simp: failing_grade_lowest_def)
  have set_S: "set ?S = set gs" by (simp add: sort_desc_def)
  have rk: "rank gs (fst e) = Some (snd e)" if "e \<in> set gs" for e
  proof -
    have "(fst e, snd e) \<in> set gs" using that by simp
    then show ?thesis unfolding rank_def using dist by (rule map_of_is_SomeI[rotated])
  qed
  show ?thesis
  proof (cases "find (\<lambda>e. snd e \<le> s1) ?S")
    case None
    then have r1: "resolve_letter_grade (Some gs) s1 = ''F''" by (simp add: resolve_Some)
    show ?thesis
    proof (cases "find (\<lambda>e. snd e \<le> s2) ?S")
      case None
      then have "resolve_letter_grade (Some gs) s2 = ''F''" by (simp add: resolve_Some)
      then show ?thesis using r1 by simp
    next
      case (Some e2)
      then have r2: "resolve_letter_grade (Some gs) s2 = fst e2"
        by (simp add: resolve_Some)
      have "e2 \<in> set gs" using find_in_set[OF Some] set_S by simp
      then show ?thesis using r1 r2 rk[of e2] low[of "fst e2" "snd e2"] by simp
    qed
  next
    case (Some e1)
    then obtain e2 where e2: "find (\<lambda>e. snd e \<le> s2) ?S = Some e2" "snd e1 \<le> snd e2"
      using find_qualifying_mono[OF sort_desc_sorted le] by blast
    have r1: "resolve_letter_grade (Some gs) s1 = fst e1"
      using Some by (simp add: resolve_Some)
    have r2: "resolve_letter_grade (Some gs) s2 = fst e2"
      using e2(1) by (simp add: resolve_Some)
    have "e1 \<in> set gs" "e2 \<in> set gs"
      using find_in_set[OF Some] find_in_set[OF e2(1)] set_S by simp_all
    then show ?thesis using r1 r2 rk e2(2) by simp
  qed
qed

text \<open>
  Claim C6, as amended. Under a monotonically ordered scale whose failing grade \<open>F\<close>, if
  listed, has the lowest threshold, held fixed, a total that is not lower never gives a
  letter of lower rank.
\<close>

theorem letter_grade_monotone:
  assumes "monotonically_ordered gs" "failing_grade_lowest gs" "s1 \<le> s2"
  shows "rank gs (resolve_letter_grade (Some gs) s1) \<le> rank gs (resolve_letter_grade (Some gs) s2)"
proof -
  have "distinct (map fst gs)" using assms(1) by (simp add: monotonically_ordered_def)
  then show ?thesis using assms(2,3) by (rule rank_monotone)
qed

lemma sample_scale_ordered: "monotonically_ordered sample_scale"
  by (simp add: monotonically_ordered_def sample_scale_def)

lemma sample_scale_lowest: "failing_grade_lowest sample_scale"
  by (simp add: failing_grade_lowest_def sample_scale_def rank_def)

theorem letter_grade_monotone_witness:
  "monotonically_ordered sample_scale \<and> failing_grade_lowest sample_scale \<and> (65::real) \<le> 85
   \<and> resolve_letter_grade (Some sample_scale) 65 = ''F''
   \<and> resolve_letter_grade (Some sample_scale) 85 = ''B''
   \<and> rank sample_scale ''F'' \<le> rank sample_scale ''B''"
proof -
  have r1: "resolve_letter_grade (Some sample_scale) 65 = ''F''"
    by (simp add: resolve_letter_grade_def truthy_dict_def sort_desc_def sample_scale_def)
  have r2: "resolve_letter_grade (Some sample_scale) 85 = ''B''"
    by (simp add: resolve_letter_grade_def truthy_dict_def sort_desc_def sample_scale_def)
  have "rank sample_scale ''F'' \<le> rank sample_scale ''B''"
    using letter_grade_monotone[OF sample_scale_ordered sample_scale_lowest, of 65 85]
    unfolding r1 r2 by simp
  then show ?thesis using sample_scale_ordered sample_scale_lowest r1 r2 by simp
qed

text \<open>
  Claim C6 as it is written fails. The scale A 90, F 60, NC 30 has distinct letters and
  falling thresholds. A total of 20 reaches no threshold and gets the default \<open>F\<close> of
  line 188, which the scale ranks at 60; the higher total 40 gets \<open>NC\<close>, ranked at 30.
\<close>

theorem failing_grade_not_lowest_counterexample:
  "monotonically_ordered no_credit_scale \<and> (20::real) \<le> 40
   \<and> resolve_letter_grade (Some no_credit_scale) 20 = ''F''
   \<and> resolve_letter_grade (Some no_credit_scale) 40 = ''NC''
   \<and> rank no_credit_scale ''F'' = Some 60
   \<and> rank no_credit_scale ''NC'' = Some 30
   \<and> \<not> rank no_credit_scale (resolve_letter_grade (Some no_credit_scale) 20)
          \<le> rank no_credit_scale (resolve_letter_grade (Some no_credit_scale) 40)"
proof -
  have r1: "resolve_letter_grade (Some no_credit_scale) 20 = ''F''"
    by (simp add: resolve_letter_grade_def truthy_dict_def sort_desc_def no_credit_scale_def)
  have r2: "resolve_letter_grade (Some no_credit_scale) 40 = ''NC''"
    by (simp add: resolve_letter_grade_def truthy_dict_def sort_desc_def no_credit_scale_def)
  have k1: "rank no_credit_scale ''F'' = Some 60"
    by (simp add: rank_def no_credit_scale_def)
  have k2: "rank no_credit_scale ''NC'' = Some 30"
    by (simp add: rank_def no_credit_scale_def)
  have m: "monotonically_ordered no_credit_scale"
    by (simp add: monotonically_ordered_def no_credit_scale_def)
  show ?thesis unfolding r1 r2 k1 k2 using m by simp
qed

subsection \<open>The pipeline\<close>

lemma project_stage_warnings:
  "project_stage P sc pol st = (st', res) \<Longrightarrow>
     warning_messages st' =
       warning_messages st @ stage_warnings (project_runs sc pol) ''Missing project data''"
  by (auto simp: project_stage_def skip_stage_def stage_warnings_def project_runs_def Let_def
      split: if_splits prod.splits sum.splits)

lemma category_stage_warnings:
  "category_stage P label cat msg sc_opt due_opt w_opt pol k st = (st', res) \<Longrightarrow>
     warning_messages st' =
       warning_messages st @ stage_warnings (truthy_dict sc_opt \<and> truthy_weight w_opt) msg"
  by (auto simp: category_stage_def skip_stage_def stage_warnings_def
      split: if_splits prod.splits sum.splits option.splits)

lemma final_stage_warnings:
  "final_stage pol st = (st', res) \<Longrightarrow> warning_messages st' = warning_messages st \<and> res = None"
  by (auto simp: final_stage_def Let_def)

lemma and_then_None:
  assumes "and_then f g st = (st'', None)"
  shows "\<exists>st'. f st = (st', None) \<and> g st' = (st'', None)"
  using assms by (auto simp: and_then_def split: prod.splits option.splits)

lemma pipeline_warnings:
  assumes "calculate_grade P (Some g) pol = (fin, None)" "scores g = Some sc"
  shows "warning_messages fin =
           stage_warnings (project_runs sc pol) ''Missing project data''
         @ stage_warnings (truthy_dict (Scores.quizzes sc)
              \<and> truthy_weight (Weights.quizzes (weights pol))) ''Missing quizzes data''
         @ stage_warnings (truthy_dict (Scores.homework sc)
              \<and> truthy_weight (Weights.homework (weights pol))) ''Missing homework data''
         @ stage_warnings (truthy_dict (Scores.reflections sc)
              \<and> truthy_weight (Weights.reflections (weights pol))) ''Missing reflections data''"
proof -
  let ?st0 = "init_state\<lparr>console :=
                  [Header (case Grades.name g of None \<Rightarrow> ''N/A'' | Some x \<Rightarrow> x)
                          (case ident g of None \<Rightarrow> ''N/A'' | Some x \<Rightarrow> x)]\<rparr>"
  have run: "and_then (project_stage P sc pol)
               (and_then (quiz_stage P sc pol)
                 (and_then (homework_stage P sc pol)
                   (and_then (reflection_stage P sc pol) (final_stage pol)))) ?st0 = (fin, None)"
    using assms by (simp add: calculate_grade_def)
  obtain st1 where s1: "project_stage P sc pol ?st0 = (st1, None)"
    and r1: "and_then (quiz_stage P sc pol)
                 (and_then (homework_stage P sc pol)
                   (and_then (reflection_stage P sc pol) (final_stage pol))) st1 = (fin, None)"
    using and_then_None[OF run] by blast
  obtain st2 where s2: "quiz_stage P sc pol st1 = (st2, None)"
    and r2: "and_then (homework_stage P sc pol)
                   (and_then (reflection_stage P sc pol) (final_stage pol)) st2 = (fin, None)"
    using and_then_None[OF r1] by blast
  obtain st3 where s3: "homework_stage P sc pol st2 = (st3, None)"
    and r3: "and_then (reflection_stage P sc pol) (final_stage pol) st3 = (fin, None)"
    using and_then_None[OF r2] by blast
  obtain st4 where s4: "reflection_stage P sc pol st3 = (st4, None)"
    and r4: "final_stage pol st4 = (fin, None)"
    using and_then_None[OF r3] by blast
  have w0: "warning_messages ?st0 = []" by (simp add: init_state_def)
  have w1: "warning_messages st1 =
      stage_warnings (project_runs sc pol) ''Missing project data''"
    using project_stage_warnings[OF s1] w0 by simp
  have w2: "warning_messages st2 = warning_messages st1
      @ stage_warnings (truthy_dict (Scores.quizzes sc)
              \<and> truthy_weight (Weights.quizzes (weights pol))) ''Missing quizzes data''"
    using s2 unfolding quiz_stage_def by (rule category_stage_warnings)
  have w3: "warning_messages st3 = warning_messages st2
      @ stage_warnings (truthy_dict (Scores.homework sc)
              \<and> truthy_weight (Weights.homework (weights pol))) ''Missing homework data''"
    using s3 unfolding homework_stage_def by (rule category_stage_warnings)
  have w4: "warning_messages st4 = warning_messages st3
      @ stage_warnings (truthy_dict (Scores.reflections sc)
              \<and> truthy_weight (Weights.reflections (weights pol))) ''Missing reflections data''"
    using s4 unfolding reflection_stage_def by (rule category_stage_warnings)
  have w5: "warning_messages fin = warning_messages st4"
    using final_stage_warnings[OF r4] by simp
  show ?thesis unfolding w5 w4 w3 w2 w1 by simp
qed

lemma four_stage_subseq:
  "subseq (stage_warnings b1 m1 @ stage_warnings b2 m2 @ stage_warnings b3 m3
             @ stage_warnings b4 m4) [m1, m2, m3, m4]"
  by (cases b1; cases b2; cases b3; cases b4) (simp_all add: stage_warnings_def)

text \<open>
  Claim C10. When the run completes, \<open>warning_messages\<close> is a subsequence of the four
  fixed strings in the order project, quizzes, homework, reflections: each stage adds
  its own string or nothing, and nothing else writes to the list.
\<close>

theorem warnings_subsequence:
  assumes "calculate_grade P grades pol = (fin, None)"
  shows "subseq (warning_messages fin)
           [''Missing project data'', ''Missing quizzes data'', ''Missing homework data'',
            ''Missing reflections data'']"
proof -
  obtain g sc where g: "grades = Some g" "scores g = Some sc"
    using assms by (auto simp: calculate_grade_def split: option.splits)
  show ?thesis
    using pipeline_warnings[OF assms[unfolded g(1)] g(2)] four_stage_subseq by simp
qed

lemma sample_project_stage:
  "project_stage sample_fromisoformat sample_scores sample_policy st =
     (st\<lparr>total_score := total_score st + 112/5,
         console := console st @ [ProjectScore 80 3 (2/5) (112/5)],
         stderr := stderr st @ []\<rparr>, None)"
  by (simp add: project_stage_def sample_scores_def sample_policy_def truthy_weight_def
      sample_three_days Let_def)

lemma sample_quiz_stage:
  "quiz_stage sample_fromisoformat sample_scores sample_policy st =
     (st\<lparr>total_score := total_score st + 19,
         console := console st @
           [CategoryScores ''Quiz Scores:''
              \<lparr>heading = ''quizzes'',
                rows = [\<lparr>AssignmentScore.name = ''Q3'', original_score = 100,
                          adjusted_score = 100, days_late = 0\<rparr>,
                        \<lparr>AssignmentScore.name = ''Q1'', original_score = 90,
                          adjusted_score = 90, days_late = 0\<rparr>]\<rparr> (1/5) 19],
         stderr := stderr st @ []\<rparr>, None)"
proof -
  have nonempty: "sample_quizzes \<noteq> []" by (simp add: sample_quizzes_def)
  show ?thesis
    by (simp add: quiz_stage_def category_stage_def sample_scores_def sample_policy_def
        truthy_weight_def truthy_dict_def nonempty sample_drop_run)
qed

lemma sample_homework_stage:
  "homework_stage P sample_scores sample_policy st =
     (st\<lparr>warning_messages := warning_messages st @ [''Missing homework data'']\<rparr>, None)"
  by (simp add: homework_stage_def category_stage_def sample_scores_def truthy_dict_def
      skip_stage_def)

lemma sample_reflection_stage:
  "reflection_stage P sample_scores sample_policy st =
     (st\<lparr>warning_messages := warning_messages st @ [''Missing reflections data'']\<rparr>, None)"
  by (simp add: reflection_stage_def category_stage_def sample_scores_def truthy_dict_def
      skip_stage_def)

lemma sample_run:
  "calculate_grade sample_fromisoformat (Some sample_grades) sample_policy =
     (\<lparr>total_score = 207/5,
       warning_messages = [''Missing homework data'', ''Missing reflections data''],
       console =
         [Header ''Ada'' ''17'', ProjectScore 80 3 (2/5) (112/5),
          CategoryScores ''Quiz Scores:''
            \<lparr>heading = ''quizzes'',
              rows = [\<lparr>AssignmentScore.name = ''Q3'', original_score = 100,
                        adjusted_score = 100, days_late = 0\<rparr>,
                      \<lparr>AssignmentScore.name = ''Q1'', original_score = 90,
                        adjusted_score = 90, days_late = 0\<rparr>]\<rparr> (1/5) 19,
          FinalSummary (207/5) ''F'',
          PolicyDetails (1/10) (1/2) (Some 1),
          Warnings [''Missing homework data'', ''Missing reflections data'']],
       stderr = []\<rparr>, None)"
proof -
  have letter: "resolve_letter_grade (Some sample_scale) (207/5) = ''F''"
    by (simp add: resolve_letter_grade_def truthy_dict_def sort_desc_def sample_scale_def)
  have fin: "final_stage sample_policy st =
      (st\<lparr>console := console st @
               [FinalSummary (total_score st) (resolve_letter_grade (Some sample_scale) (total_score st)),
                PolicyDetails (1/10) (1/2) (Some 1)] @
               (if warning_messages st \<noteq> [] then [Warnings (warning_messages st)] else [])\<rparr>,
          None)" for st
    by (simp add: final_stage_def sample_policy_def Let_def)
  show ?thesis
    by (simp add: calculate_grade_def sample_grades_def and_then_def sample_project_stage
        sample_quiz_stage sample_homework_stage sample_reflection_stage fin init_state_def
        letter)
qed

theorem warnings_subsequence_witness:
  "subseq [''Missing homework data'', ''Missing reflections data'']
     [''Missing project data'', ''Missing quizzes data'', ''Missing homework data'',
      ''Missing reflections data'']"
  using warnings_subsequence[OF sample_run] by simp

text \<open>
  Claim C7. Without a student record, or with a record that has no \<open>scores\<close> key, the
  run raises \<open>ValueError\<close> (the specification's ValidationError) at once: nothing has
  been written to the console, and no warning has been collected.
\<close>

theorem missing_scores_is_hard_failure:
  "calculate_grade P None pol =
     (\<lparr>total_score = 0, warning_messages = [], console = [], stderr = []\<rparr>,
      Some (ValueError ''Invalid grades data''))
   \<and> (scores g = None \<longrightarrow>
        calculate_grade P (Some g) pol =
          (\<lparr>total_score = 0, warning_messages = [], console = [], stderr = []\<rparr>,
           Some (ValueError ''Invalid grades data'')))"
  by (simp add: calculate_grade_def init_state_def)

theorem missing_scores_is_hard_failure_witness:
  "calculate_grade sample_fromisoformat
     (Some \<lparr>Grades.name = Some ''Ada'', ident = Some ''17'', scores = None\<rparr>) sample_policy =
     (\<lparr>total_score = 0, warning_messages = [], console = [], stderr = []\<rparr>,
      Some (ValueError ''Invalid grades data''))"
  using missing_scores_is_hard_failure[of sample_fromisoformat sample_policy
      "\<lparr>Grades.name = Some ''Ada'', ident = Some ''17'', scores = None\<rparr>"]
  by simp

lemma project_runs_iff:
  "project_runs sc pol \<longleftrightarrow>
     \<not> (Scores.project sc = None \<or> Weights.project (weights pol) = None
        \<or> Weights.project (weights pol) = Some 0)"
  by (auto simp: project_runs_def truthy_weight_def split: option.splits)

text \<open>
  Claim C4, as amended. The project stage runs when the project entry is present and
  the project weight is present and not zero; if its penalty is computed, it adds
  \<open>score * (1 - penalty) * weight\<close> to the total and no warning. When the project entry
  is absent, or the weight is absent or zero, the stage is skipped: the total is
  unchanged and \<open>Missing project data\<close> is appended. In a run that completes, that
  warning is in the final list exactly when the stage was skipped.
\<close>

theorem project_stage_contribution:
  "(Scores.project sc = Some sub \<and> Weights.project (weights pol) = Some w \<and> w \<noteq> 0
      \<and> calculate_late_penalty P (submitted_at sub)
            (case DueDates.project (due_dates pol) of None \<Rightarrow> Some [] | Some t \<Rightarrow> t)
            (rate (late_penalty pol)) (max_penalty (late_penalty pol)) = (out, Inr pen)
    \<longrightarrow> (\<exists>st'. project_stage P sc pol st = (st', None)
           \<and> total_score st' = total_score st + score sub * (1 - penalty pen) * w
           \<and> warning_messages st' = warning_messages st))
   \<and> (Scores.project sc = None \<or> Weights.project (weights pol) = None
        \<or> Weights.project (weights pol) = Some 0
    \<longrightarrow> (\<exists>st'. project_stage P sc pol st = (st', None)
           \<and> total_score st' = total_score st
           \<and> warning_messages st' = warning_messages st @ [''Missing project data'']))
   \<and> (calculate_grade P (Some g) pol = (fin, None) \<and> scores g = Some sc
    \<longrightarrow> (''Missing project data'' \<in> set (warning_messages fin)
           \<longleftrightarrow> Scores.project sc = None \<or> Weights.project (weights pol) = None
               \<or> Weights.project (weights pol) = Some 0))"
proof (intro conjI impI)
  assume h: "Scores.project sc = Some sub \<and> Weights.project (weights pol) = Some w \<and> w \<noteq> 0
      \<and> calculate_late_penalty P (submitted_at sub)
            (case DueDates.project (due_dates pol) of None \<Rightarrow> Some [] | Some t \<Rightarrow> t)
            (rate (late_penalty pol)) (max_penalty (late_penalty pol)) = (out, Inr pen)"
  then show "\<exists>st'. project_stage P sc pol st = (st', None)
           \<and> total_score st' = total_score st + score sub * (1 - penalty pen) * w
           \<and> warning_messages st' = warning_messages st"
    by (simp add: project_stage_def truthy_weight_def Let_def)
next
  assume "Scores.project sc = None \<or> Weights.project (weights pol) = None
        \<or> Weights.project (weights pol) = Some 0"
  then have "\<not> project_runs sc pol" by (simp add: project_runs_iff)
  then have "project_stage P sc pol st = skip_stage ''Missing project data'' st"
    unfolding project_stage_def project_runs_def by (rule if_not_P)
  then show "\<exists>st'. project_stage P sc pol st = (st', None)
           \<and> total_score st' = total_score st
           \<and> warning_messages st' = warning_messages st @ [''Missing project data'']"
    by (simp add: skip_stage_def)
next
  assume h: "calculate_grade P (Some g) pol = (fin, None) \<and> scores g = Some sc"
  have w: "warning_messages fin =
           stage_warnings (project_runs sc pol) ''Missing project data''
         @ stage_warnings (truthy_dict (Scores.quizzes sc)
              \<and> truthy_weight (Weights.quizzes (weights pol))) ''Missing quizzes data''
         @ stage_warnings (truthy_dict (Scores.homework sc)
              \<and> truthy_weight (Weights.homework (weights pol))) ''Missing homework data''
         @ stage_warnings (truthy_dict (Scores.reflections sc)
              \<and> truthy_weight (Weights.reflections (weights pol))) ''Missing reflections data''"
    using h pipeline_warnings by blast
  have "''Missing project data'' \<in> set (warning_messages fin) \<longleftrightarrow> \<not> project_runs sc pol"
    unfolding w by (simp add: stage_warnings_def)
  then show "''Missing project data'' \<in> set (warning_messages fin)
           \<longleftrightarrow> Scores.project sc = None \<or> Weights.project (weights pol) = None
               \<or> Weights.project (weights pol) = Some 0"
    by (simp add: project_runs_iff)
qed

text \<open>
  Claim C4 as it is written fails: with a project score and a project weight of 0 both
  present, the stage is skipped and the warning is issued.
\<close>

theorem zero_weight_project_counterexample:
  "Scores.project sample_scores = Some \<lparr>score = 80, submitted_at = Some ''2024-01-13T00:00:00Z''\<rparr>
   \<and> Weights.project (weights zero_weight_policy) = Some 0
   \<and> project_stage sample_fromisoformat sample_scores zero_weight_policy init_state =
       (init_state\<lparr>warning_messages := [''Missing project data'']\<rparr>, None)"
  by (simp add: project_stage_def sample_scores_def zero_weight_policy_def sample_policy_def
      truthy_weight_def skip_stage_def init_state_def)

theorem project_stage_contribution_witness:
  "(\<exists>st'. project_stage sample_fromisoformat sample_scores sample_policy init_state = (st', None)
      \<and> total_score st' = 112/5 \<and> warning_messages st' = [])
   \<and> (\<exists>st'. project_stage sample_fromisoformat sample_scores zero_weight_policy init_state
          = (st', None)
      \<and> total_score st' = 0 \<and> warning_messages st' = [''Missing project data''])
   \<and> ''Missing project data'' \<notin> set [''Missing homework data'', ''Missing reflections data'']"
proof -
  have pen: "calculate_late_penalty sample_fromisoformat
      (submitted_at \<lparr>score = 80, submitted_at = Some ''2024-01-13T00:00:00Z''\<rparr>)
      (case DueDates.project (due_dates sample_policy) of None \<Rightarrow> Some [] | Some t \<Rightarrow> t)
      (rate (late_penalty sample_policy)) (max_penalty (late_penalty sample_policy)) =
      ([], Inr \<lparr>PenaltyResult.days_late = 3, penalty = 3/10\<rparr>)"
    by (simp add: sample_policy_def sample_three_days)
  have a: "\<exists>st'. project_stage sample_fromisoformat sample_scores sample_policy init_state
             = (st', None)
      \<and> total_score st' = 112/5 \<and> warning_messages st' = []"
    using project_stage_contribution[of sample_scores
        "\<lparr>score = 80, submitted_at = Some ''2024-01-13T00:00:00Z''\<rparr>" sample_policy "2/5"
        sample_fromisoformat "[]" "\<lparr>PenaltyResult.days_late = 3, penalty = 3/10\<rparr>" init_state]
      pen
    by (simp add: sample_scores_def sample_policy_def init_state_def)
  have b: "\<exists>st'. project_stage sample_fromisoformat sample_scores zero_weight_policy init_state
          = (st', None)
      \<and> total_score st' = 0 \<and> warning_messages st' = [''Missing project data'']"
    using project_stage_contribution[of sample_scores _ zero_weight_policy _
        sample_fromisoformat _ _ init_state]
    by (simp add: zero_weight_policy_def sample_policy_def init_state_def)
  have c: "''Missing project data'' \<notin> set [''Missing homework data'', ''Missing reflections data'']"
    using project_stage_contribution[of sample_scores _ sample_policy _ sample_fromisoformat _ _ _
        sample_grades "fst (calculate_grade sample_fromisoformat (Some sample_grades) sample_policy)"]
    by (simp add: sample_run sample_grades_def)
  show ?thesis using a b c by simp
qed

end
